theory Spec2Isabelle
  imports Complex_Main "HOL-Library.Sublist"
begin

section \<open>Checkout, order creation and payment confirmation of the storefront\<close>

text \<open>
  A shallow embedding of the checkout core of the storefront: the \<^verbatim>\<open>Checkout\<close> page
  (second document of \<^verbatim>\<open>src/pages/Products.tsx\<close>), the \<^verbatim>\<open>PaymentConfirmation\<close> page
  (\<^verbatim>\<open>unnamed/part_000\<close>), the add-to-cart mutation of \<^verbatim>\<open>src/pages/ProductDetail.tsx\<close>
  and the product mutations of \<^verbatim>\<open>src/pages/admin/Products.tsx\<close>.

  Modelling decisions.
  \<^item> A JavaScript number is a rational (\<^typ>\<open>rat\<close>: every finite double is one);
    \<^verbatim>\<open>null\<close>/\<^verbatim>\<open>undefined\<close> is \<^term>\<open>None\<close>. The multiplication, division and subtraction
    of \<^verbatim>\<open>discount\<close> and \<^verbatim>\<open>total\<close> round their exact result to the nearest double
    (\<open>round_double\<close>). The sum of \<^verbatim>\<open>subtotal\<close> and the product in an order item are exact:
    what is proved of them is which lines and which unit prices enter them. \<^verbatim>\<open>NaN\<close> and
    the infinities are not modelled (\<^verbatim>\<open>x || Infinity\<close> under \<^verbatim>\<open>Math.min\<close> is written as
    "no cap").
  \<^item> A string is a \<^typ>\<open>string\<close>. \<^verbatim>\<open>String.prototype.toUpperCase\<close> is a function of the
    platform and an argument of the model; \<^verbatim>\<open>trim\<close> acts on ASCII white space.
  \<^item> A time stamp is a number of milliseconds (\<^typ>\<open>nat\<close>).
  \<^item> The remote store is a record of tables, each a list of rows. A call to the store
    either fails, changing nothing, or succeeds; which of the two happens is decided
    outside the program and is an argument of the model (\<^term>\<open>None\<close> for success,
    \<^term>\<open>Some msg\<close> for the error object). Values produced by the store or the
    platform (generated ids, the clock, the random number) are arguments too.
  \<^item> An exception is a value of type \<open>error\<close> on the left of a sum.
\<close>

subsection \<open>Rows of the store\<close>

record variant =
  v_label :: string
  v_image_url :: "string option"

record product =
  p_id :: string
  p_name :: "string option"
  p_description :: "string option"
  p_image_url :: "string option"
  p_price_per_litre :: "rat option"
  p_offer_price_per_litre :: "rat option"
  p_stock_quantity :: "int option"
  p_category_id :: "string option"
  p_variant_enabled :: bool
  p_variant_title :: "string option"
  p_variant_values :: "variant list option"
  p_measurement_enabled :: bool
  p_measurement_title :: "string option"
  p_measurement_values :: "string list option"
  p_is_active :: bool
  p_featured_in_offers :: bool

record cart_row =
  cr_user_id :: string
  cr_product_id :: string
  cr_quantity_litres :: rat
  cr_variant_selection :: "variant option"
  cr_measurement_label :: "string option"
  cr_measurement_value :: "string option"

text \<open>A cart line as the page holds it: the row with its joined product
  (\<^verbatim>\<open>select('*, products (*)')\<close>); the join is \<^verbatim>\<open>null\<close> when no product row is visible.\<close>

record cart_item = cart_row +
  ci_products :: "product option"

record coupon =
  c_code :: string
  c_discount_type :: string
  c_discount_value :: rat
  c_min_order_amount :: "rat option"
  c_max_discount_amount :: "rat option"
  c_valid_until :: "nat option"
  c_is_active :: bool

record order =
  o_id :: string
  o_user_id :: string
  o_order_number :: string
  o_total_amount :: rat
  o_discount_amount :: rat
  o_final_amount :: rat
  o_coupon_code :: "string option"
  o_shipping_address :: string
  o_status :: string
  o_payment_status :: string

record order_item =
  oi_order_id :: string
  oi_product_id :: string
  oi_product_name :: string
  oi_quantity_litres :: rat
  oi_price_per_litre :: rat
  oi_total_price :: rat
  oi_variant_selection :: "variant option"
  oi_measurement_label :: "string option"
  oi_measurement_value :: "string option"

record store =
  products :: "product list"
  cart_items :: "cart_row list"
  coupons :: "coupon list"
  orders :: "order list"
  order_items :: "order_item list"

datatype error =
    AuthRequiredError
  | ValidationError string
  | EmptyCartError
  | InvalidCode
  | BelowMinimum rat
  | Expired
  | ProductNotFound
  | StoreError string

text \<open>
  The thrown values of the source, by constructor:
  \<^verbatim>\<open>Error('Please login')\<close>, \<^verbatim>\<open>Error(<first zod message>)\<close>, \<^verbatim>\<open>Error('Cart is empty')\<close>,
  \<^verbatim>\<open>Error('Invalid coupon code')\<close>, \<^verbatim>\<open>Error('Minimum order amount is ...')\<close>,
  \<^verbatim>\<open>Error('Coupon has expired')\<close>, \<^verbatim>\<open>Error('Product not found')\<close>, and the error object
  returned by a store call. The other messages of the product pages
  (\<^verbatim>\<open>'Please select a ...'\<close>, \<^verbatim>\<open>'Please fill in all required fields'\<close>, ...) are
  \<open>ValidationError\<close>s carrying the message.
\<close>

subsection \<open>JavaScript operators used by the pages\<close>

text \<open>\<^verbatim>\<open>a || b\<close> on nullable numbers: \<^verbatim>\<open>null\<close>, \<^verbatim>\<open>undefined\<close> and \<^verbatim>\<open>0\<close> are falsy.\<close>

fun truthy_num :: "rat option \<Rightarrow> bool" where
  "truthy_num None = False"
| "truthy_num (Some x) = (x \<noteq> 0)"

definition or_num :: "rat option \<Rightarrow> rat option \<Rightarrow> rat option" where
  "or_num a b = (if truthy_num a then a else b)"

text \<open>The trailing \<^verbatim>\<open>|| 0\<close>.\<close>

fun or_zero :: "rat option \<Rightarrow> rat" where
  "or_zero None = 0"
| "or_zero (Some x) = x"

text \<open>\<^verbatim>\<open>a || b\<close> on nullable strings: \<^verbatim>\<open>null\<close> and the empty string are falsy.\<close>

fun truthy_str :: "string option \<Rightarrow> bool" where
  "truthy_str None = False"
| "truthy_str (Some x) = (x \<noteq> [])"

definition or_str :: "string option \<Rightarrow> string option \<Rightarrow> string option" where
  "or_str a b = (if truthy_str a then a else b)"

text \<open>\<^verbatim>\<open>a || ''\<close> and \<^verbatim>\<open>a || null\<close> on a nullable string.\<close>

fun or_empty :: "string option \<Rightarrow> string" where
  "or_empty None = []"
| "or_empty (Some x) = x"

definition or_null :: "string option \<Rightarrow> string option" where
  "or_null a = (if truthy_str a then a else None)"

text \<open>
  IEEE 754 binary64, round to nearest, ties to even: a double is \<open>m * 2 ^ e\<close> with
  \<open>\<bar>m\<bar> \<le> 2 ^ 53\<close> and \<open>e \<ge> -1074\<close>, and each arithmetic operation of JavaScript returns
  its exact result rounded to the nearest double. \<open>bit_length n\<close> is the number of binary
  digits of \<open>n\<close>, \<open>floor_log2 a\<close> the integer part of the binary logarithm of \<open>a > 0\<close>.
  Overflow to \<^verbatim>\<open>Infinity\<close> (above about \<open>1.8 * 10 ^ 308\<close>) is not modelled.
\<close>

function bit_length :: "int \<Rightarrow> int" where
  "bit_length n = (if n \<le> 0 then 0 else 1 + bit_length (n div 2))"
  by pat_completeness auto
termination
  by (relation "measure nat") auto

declare bit_length.simps [simp del]

definition floor_log2 :: "rat \<Rightarrow> int" where
  "floor_log2 a =
     (if 1 \<le> a then bit_length \<lfloor>a\<rfloor> - 1
      else - bit_length (\<lceil>1 / a\<rceil> - 1))"

definition round_half_even :: "rat \<Rightarrow> int" where
  "round_half_even y =
     (let f = \<lfloor>y\<rfloor>; d = y - of_int f
      in if d < 1 / 2 then f else if 1 / 2 < d then f + 1 else if even f then f else f + 1)"

definition round_double :: "rat \<Rightarrow> rat" where
  "round_double x =
     (if x = 0 then 0
      else let e = max (floor_log2 \<bar>x\<bar> - 52) (- 1074)
           in of_int (round_half_even (x / 2 powi e)) * 2 powi e)"

text \<open>\<^verbatim>\<open>s.trim()\<close>, on the ASCII white space characters.\<close>

definition is_space :: "char \<Rightarrow> bool" where
  "is_space c = ((of_char c :: nat) \<in> {9, 10, 11, 12, 13, 32})"

definition trim :: "string \<Rightarrow> string" where
  "trim s = rev (dropWhile is_space (rev (dropWhile is_space s)))"

text \<open>\<^verbatim>\<open>s || null\<close> on a string.\<close>

definition str_or_null :: "string \<Rightarrow> string option" where
  "str_or_null s = (if s = [] then None else Some s)"

definition digit_char :: "nat \<Rightarrow> char" where
  "digit_char d = char_of (48 + d)"

fun string_of_nat :: "nat \<Rightarrow> string" where
  "string_of_nat n =
     (if n < 10 then [digit_char n]
      else string_of_nat (n div 10) @ [digit_char (n mod 10)])"

declare string_of_nat.simps [simp del]

subsection \<open>The Checkout page: pricing\<close>

text \<open>What the page holds: the signed-in user's id (\<^verbatim>\<open>user\<close>), the cached cart query
  (\<^verbatim>\<open>cartItems\<close>, \<^verbatim>\<open>undefined\<close> until loaded), and the three pieces of form state.\<close>

record checkout =
  ck_user :: "string option"
  ck_cartItems :: "cart_item list option"
  ck_address :: string
  ck_couponCode :: string
  ck_appliedCoupon :: "coupon option"

text \<open>The cart query: the user's rows, each with its product joined by id.\<close>

definition join_product :: "store \<Rightarrow> cart_row \<Rightarrow> cart_item" where
  "join_product s r =
     cart_row.extend r
       \<lparr>ci_products = find (\<lambda>p. p_id p = cr_product_id r) (products s)\<rparr>"

definition cartItems_query :: "store \<Rightarrow> string option \<Rightarrow> cart_item list" where
  "cartItems_query s u =
     (case u of
        None \<Rightarrow> []
      | Some uid \<Rightarrow> map (join_product s) (filter (\<lambda>r. cr_user_id r = uid) (cart_items s)))"

text \<open>The expression
  \<^verbatim>\<open>item.products?.offer_price_per_litre || item.products?.price_per_litre || 0\<close>,
  which the page writes three times (in \<^verbatim>\<open>subtotal\<close>, and for \<^verbatim>\<open>price_per_litre\<close> and
  \<^verbatim>\<open>total_price\<close> of an order item).\<close>

definition price :: "cart_item \<Rightarrow> rat" where
  "price item =
     or_zero (or_num (Option.bind (ci_products item) p_offer_price_per_litre)
                     (Option.bind (ci_products item) p_price_per_litre))"

text \<open>\<^verbatim>\<open>cartItems?.reduce((sum, item) => sum + price * item.quantity_litres, 0) || 0\<close>;
  the trailing \<^verbatim>\<open>|| 0\<close> turns \<^verbatim>\<open>undefined\<close> (no cart loaded) into 0 and leaves a number as
  it is.\<close>

definition subtotal :: "checkout \<Rightarrow> rat" where
  "subtotal ck =
     (case ck_cartItems ck of
        None \<Rightarrow> 0
      | Some items \<Rightarrow>
          foldl (\<lambda>sum item. sum + price item * cr_quantity_litres item) 0 items)"

text \<open>\<^verbatim>\<open>x || Infinity\<close>: the result \<^term>\<open>None\<close> stands for \<^verbatim>\<open>Infinity\<close>.\<close>

definition or_Infinity :: "rat option \<Rightarrow> rat option" where
  "or_Infinity a = (if truthy_num a then a else None)"

text \<open>\<^verbatim>\<open>Math.min(x, y)\<close> where \<^verbatim>\<open>y\<close> may be \<^verbatim>\<open>Infinity\<close>.\<close>

fun Math_min :: "rat \<Rightarrow> rat option \<Rightarrow> rat" where
  "Math_min x None = x"
| "Math_min x (Some y) = min x y"

definition discount :: "checkout \<Rightarrow> rat" where
  "discount ck =
     (case ck_appliedCoupon ck of
        None \<Rightarrow> 0
      | Some c \<Rightarrow>
          if c_discount_type c = ''percentage''
          then Math_min (round_double (round_double (subtotal ck * c_discount_value c) / 100))
                        (or_Infinity (c_max_discount_amount c))
          else c_discount_value c)"

definition total :: "checkout \<Rightarrow> rat" where
  "total ck = round_double (subtotal ck - discount ck)"

subsection \<open>The Checkout page: creating the order\<close>

text \<open>What the platform and the store decide during one call of
  \<^verbatim>\<open>createSupabaseOrder\<close>: \<^verbatim>\<open>Date.now()\<close>, \<^verbatim>\<open>Math.floor(Math.random() * 1000)\<close>, the id
  the store gives the new order, and the outcome of each of the two inserts.\<close>

record env =
  e_now :: nat
  e_random :: nat
  e_order_id :: string
  e_orderError :: "string option"
  e_itemsError :: "string option"

definition orderNumber :: "env \<Rightarrow> string" where
  "orderNumber e =
     ''ORD-'' @ string_of_nat (e_now e) @ ''-'' @ string_of_nat (e_random e)"

text \<open>The row sent to \<^verbatim>\<open>orders\<close>, as the store returns it (\<^verbatim>\<open>.select().single()\<close>).\<close>

definition new_order :: "env \<Rightarrow> checkout \<Rightarrow> string \<Rightarrow> order" where
  "new_order e ck uid =
     \<lparr>o_id = e_order_id e,
      o_user_id = uid,
      o_order_number = orderNumber e,
      o_total_amount = subtotal ck,
      o_discount_amount = discount ck,
      o_final_amount = total ck,
      o_coupon_code = map_option c_code (ck_appliedCoupon ck),
      o_shipping_address = ck_address ck,
      o_status = ''pending'',
      o_payment_status = ''pending''\<rparr>"

text \<open>One element of \<^verbatim>\<open>orderItems\<close> (the body of \<^verbatim>\<open>cartItems.map\<close>).\<close>

definition orderItem :: "order \<Rightarrow> cart_item \<Rightarrow> order_item" where
  "orderItem ord item =
     \<lparr>oi_order_id = o_id ord,
      oi_product_id = cr_product_id item,
      oi_product_name = or_empty (Option.bind (ci_products item) p_name),
      oi_quantity_litres = cr_quantity_litres item,
      oi_price_per_litre = price item,
      oi_total_price = price item * cr_quantity_litres item,
      oi_variant_selection = cr_variant_selection item,
      oi_measurement_label =
        or_null (or_str (cr_measurement_label item)
                        (Option.bind (ci_products item) p_measurement_title)),
      oi_measurement_value = or_null (cr_measurement_value item)\<rparr>"

text \<open>\<^verbatim>\<open>createSupabaseOrder\<close>: the guard, the insert into \<^verbatim>\<open>orders\<close>, then the insert of all
  order items in one call. Each insert that fails throws the store's error and leaves the
  store as it was before that insert.\<close>

definition createSupabaseOrder :: "env \<Rightarrow> checkout \<Rightarrow> store \<Rightarrow> (error + order) \<times> store" where
  "createSupabaseOrder e ck s =
     (case ck_user ck of
        None \<Rightarrow> (Inl EmptyCartError, s)
      | Some uid \<Rightarrow>
          (case ck_cartItems ck of
             None \<Rightarrow> (Inl EmptyCartError, s)
           | Some [] \<Rightarrow> (Inl EmptyCartError, s)
           | Some items \<Rightarrow>
               (case e_orderError e of
                  Some err \<Rightarrow> (Inl (StoreError err), s)
                | None \<Rightarrow>
                    let ord = new_order e ck uid;
                        s1 = s\<lparr>orders := orders s @ [ord]\<rparr>;
                        orderItems = map (orderItem ord) items
                    in (case e_itemsError e of
                          Some err \<Rightarrow> (Inl (StoreError err), s1)
                        | None \<Rightarrow>
                            (Inr ord, s1\<lparr>order_items := order_items s1 @ orderItems\<rparr>)))))"

text \<open>\<^verbatim>\<open>checkoutSchema\<close>: \<^verbatim>\<open>z.string().min(10, ...)\<close> on the address; the optional coupon
  code is not passed to \<^verbatim>\<open>parse\<close>. The result is the first message of the schema error.\<close>

definition checkoutSchema_parse :: "string \<Rightarrow> string option" where
  "checkoutSchema_parse address =
     (if length address < 10 then Some ''Address must be at least 10 characters'' else None)"

definition placeOrderMutation :: "env \<Rightarrow> checkout \<Rightarrow> store \<Rightarrow> (error + order) \<times> store" where
  "placeOrderMutation e ck s =
     (case ck_user ck of
        None \<Rightarrow> (Inl AuthRequiredError, s)
      | Some uid \<Rightarrow>
          (case checkoutSchema_parse (ck_address ck) of
             Some msg \<Rightarrow> (Inl (ValidationError msg), s)
           | None \<Rightarrow>
               (case ck_cartItems ck of
                  None \<Rightarrow> (Inl EmptyCartError, s)
                | Some [] \<Rightarrow> (Inl EmptyCartError, s)
                | Some items \<Rightarrow> createSupabaseOrder e ck s)))"

subsection \<open>The Checkout page: applying a coupon\<close>



subsection \<open>The PaymentConfirmation page\<close>

text \<open>\<^verbatim>\<open>completeMutation.mutationFn\<close>: without a signed-in user it returns at once;
  otherwise it deletes the rows of \<^verbatim>\<open>cart_items\<close> whose \<^verbatim>\<open>user_id\<close> is the user's. The second
  argument is the outcome of the delete call.\<close>

definition completeMutation ::
    "string option \<Rightarrow> string option \<Rightarrow> store \<Rightarrow> (error + unit) \<times> store" where
  "completeMutation user deleteError s =
     (case user of
        None \<Rightarrow> (Inr (), s)
      | Some uid \<Rightarrow>
          (case deleteError of
             Some err \<Rightarrow> (Inl (StoreError err), s)
           | None \<Rightarrow>
               (Inr (), s\<lparr>cart_items := filter (\<lambda>r. cr_user_id r \<noteq> uid) (cart_items s)\<rparr>)))"

text \<open>
  The page as a machine. Its React state is \<^verbatim>\<open>utr\<close>, \<^verbatim>\<open>sending\<close>, \<^verbatim>\<open>canComplete\<close> and
  \<^verbatim>\<open>completeMutation.isPending\<close>. The model adds the clock, the due time of the pending
  \<^verbatim>\<open>setTimeout\<close> (armed by the effect on \<^verbatim>\<open>sending\<close>), and two logs: the calls of
  \<^verbatim>\<open>window.open(waLink)\<close>, each with its time and the reference in the message, and the
  times of the calls of \<^verbatim>\<open>completeMutation.mutate()\<close>.
\<close>

record confirmation =
  pc_utr :: string
  pc_sending :: bool
  pc_canComplete :: bool
  pc_isPending :: bool
  pc_timer :: "nat option"
  pc_clock :: nat
  pc_opened :: "(nat \<times> string) list"
  pc_completed :: "nat list"

datatype event =
    SetUtr string
  | ClickSend
  | ClickComplete
  | TimerFires
  | Elapse nat
  | MutationSettles

definition mounted :: "nat \<Rightarrow> confirmation" where
  "mounted t =
     \<lparr>pc_utr = [], pc_sending = False, pc_canComplete = False, pc_isPending = False,
      pc_timer = None, pc_clock = t, pc_opened = [], pc_completed = []\<rparr>"

text \<open>
  One event. A click on a disabled button does nothing: the send button is disabled by
  \<^verbatim>\<open>!utr || sending\<close>, the completion button by
  \<^verbatim>\<open>!canComplete || completeMutation.isPending\<close>. The callback of
  \<^verbatim>\<open>setTimeout(..., 3000)\<close> runs no earlier than 3000 ms after the timer was armed.
\<close>

fun step :: "confirmation \<Rightarrow> event \<Rightarrow> confirmation" where
  "step c (SetUtr v) = c\<lparr>pc_utr := v\<rparr>"
| "step c ClickSend =
     (if pc_utr c = [] \<or> pc_sending c then c
      else c\<lparr>pc_sending := True,
             pc_timer := Some (pc_clock c + 3000),
             pc_opened := pc_opened c @ [(pc_clock c, pc_utr c)]\<rparr>)"
| "step c ClickComplete =
     (if \<not> pc_canComplete c \<or> pc_isPending c then c
      else c\<lparr>pc_isPending := True,
             pc_completed := pc_completed c @ [pc_clock c]\<rparr>)"
| "step c TimerFires =
     (case pc_timer c of
        None \<Rightarrow> c
      | Some due \<Rightarrow>
          if pc_clock c < due then c
          else c\<lparr>pc_canComplete := True, pc_timer := None\<rparr>)"
| "step c (Elapse d) = c\<lparr>pc_clock := pc_clock c + d\<rparr>"
| "step c MutationSettles = c\<lparr>pc_isPending := False\<rparr>"

definition run :: "confirmation \<Rightarrow> event list \<Rightarrow> confirmation" where
  "run c evs = foldl step c evs"

subsection \<open>The ProductDetail page: adding to the cart\<close>

text \<open>\<^verbatim>\<open>parseVariantOptions\<close> on a stored list of \<^verbatim>\<open>{label, image_url}\<close> objects.\<close>

definition parseVariantOptions :: "variant list option \<Rightarrow> variant list" where
  "parseVariantOptions values =
     (case values of
        None \<Rightarrow> []
      | Some vs \<Rightarrow>
          map (\<lambda>v. \<lparr>v_label = trim (v_label v), v_image_url = or_null (v_image_url v)\<rparr>)
            (filter (\<lambda>v. trim (v_label v) \<noteq> []) vs))"

record product_detail =
  pd_id :: string
  pd_user :: "string option"
  pd_product :: "product option"
  pd_quantity :: rat
  pd_selectedVariant :: "variant option"
  pd_selectedMeasurement :: "string option"

definition hasVariants :: "product_detail \<Rightarrow> bool" where
  "hasVariants pd =
     (case pd_product pd of
        None \<Rightarrow> False
      | Some p \<Rightarrow> p_variant_enabled p \<and> parseVariantOptions (p_variant_values p) \<noteq> [])"

definition hasMeasurements :: "product_detail \<Rightarrow> bool" where
  "hasMeasurements pd =
     (case pd_product pd of
        None \<Rightarrow> False
      | Some p \<Rightarrow>
          p_measurement_enabled p
          \<and> (case p_measurement_values p of None \<Rightarrow> False | Some ms \<Rightarrow> ms \<noteq> []))"

text \<open>\<^verbatim>\<open>.upsert(row, {onConflict: 'user_id,product_id'})\<close>\<close>

definition upsert_cart :: "cart_row \<Rightarrow> cart_row list \<Rightarrow> cart_row list" where
  "upsert_cart r rows =
     (let same = (\<lambda>x. cr_user_id x = cr_user_id r \<and> cr_product_id x = cr_product_id r)
      in if list_ex same rows then map (\<lambda>x. if same x then r else x) rows
         else rows @ [r])"

definition addToCartMutation ::
    "product_detail \<Rightarrow> string option \<Rightarrow> store \<Rightarrow> (error + unit) \<times> store" where
  "addToCartMutation pd upsertError s =
     (case pd_user pd of
        None \<Rightarrow> (Inl AuthRequiredError, s)
      | Some uid \<Rightarrow>
          (case pd_product pd of
             None \<Rightarrow> (Inl ProductNotFound, s)
           | Some p \<Rightarrow>
               if hasVariants pd \<and> pd_selectedVariant pd = None
               then (Inl (ValidationError
                       (''Please select a ''
                          @ or_empty (or_str (p_variant_title p) (Some ''variant'')))), s)
               else if hasMeasurements pd \<and> \<not> truthy_str (pd_selectedMeasurement pd)
               then (Inl (ValidationError
                       (''Please select a ''
                          @ or_empty (or_str (p_measurement_title p)
                                        (Some ''measurement option'')))), s)
               else
                 (case upsertError of
                    Some err \<Rightarrow> (Inl (StoreError err), s)
                  | None \<Rightarrow>
                      (Inr (),
                       s\<lparr>cart_items :=
                           upsert_cart
                             \<lparr>cr_user_id = uid,
                              cr_product_id = pd_id pd,
                              cr_quantity_litres = pd_quantity pd,
                              cr_variant_selection = pd_selectedVariant pd,
                              cr_measurement_label = or_null (p_measurement_title p),
                              cr_measurement_value = pd_selectedMeasurement pd\<rparr>
                             (cart_items s)\<rparr>))))"

subsection \<open>The admin Products page\<close>

record product_form =
  f_name :: string
  f_description :: string
  f_price_per_litre :: string
  f_offer_price_per_litre :: string
  f_stock_quantity :: string
  f_image_url :: string
  f_category_id :: string
  f_variant_enabled :: bool
  f_variant_title :: string
  f_variant_values :: "variant list"
  f_measurement_enabled :: bool
  f_measurement_title :: string
  f_measurement_values :: "string list"
  f_is_active :: bool
  f_featured_in_offers :: bool

text \<open>The two parsers of the platform, \<^verbatim>\<open>parseFloat\<close> and \<^verbatim>\<open>parseInt\<close>, are arguments
  (\<^term>\<open>None\<close> for \<^verbatim>\<open>NaN\<close>, which the store client sends as \<^verbatim>\<open>null\<close>).\<close>

record parsers =
  parseFloat :: "string \<Rightarrow> rat option"
  parseInt :: "string \<Rightarrow> int option"

text \<open>The checks at the head of \<^verbatim>\<open>createProductMutation.mutationFn\<close>; the result is the
  message thrown.\<close>

definition form_error :: "product_form \<Rightarrow> string option" where
  "form_error f =
     (if f_name f = [] \<or> f_price_per_litre f = [] \<or> f_stock_quantity f = []
      then Some ''Please fill in all required fields''
      else if f_variant_enabled f \<and> trim (f_variant_title f) = []
      then Some ''Please provide a title for the variant options''
      else if f_variant_enabled f \<and> f_variant_values f = []
      then Some ''Add at least one variant option with a label''
      else if f_measurement_enabled f \<and> trim (f_measurement_title f) = []
      then Some ''Please provide a title for the measurement options''
      else if f_measurement_enabled f \<and> f_measurement_values f = []
      then Some ''Add at least one measurement option value''
      else None)"

text \<open>The columns both the update and the insert send, written onto a row \<open>p\<close>.\<close>

definition write_form :: "parsers \<Rightarrow> product_form \<Rightarrow> product \<Rightarrow> product" where
  "write_form js f p =
     p\<lparr>p_name := Some (f_name f),
       p_description := str_or_null (f_description f),
       p_image_url := str_or_null (f_image_url f),
       p_price_per_litre := parseFloat js (f_price_per_litre f),
       p_offer_price_per_litre :=
         (if f_offer_price_per_litre f \<noteq> [] then parseFloat js (f_offer_price_per_litre f)
          else None),
       p_stock_quantity := parseInt js (f_stock_quantity f),
       p_category_id := str_or_null (f_category_id f),
       p_variant_enabled := f_variant_enabled f,
       p_variant_title :=
         (if f_variant_enabled f \<and> f_variant_title f \<noteq> [] then Some (f_variant_title f)
          else None),
       p_variant_values :=
         (if f_variant_enabled f \<and> f_variant_values f \<noteq> [] then Some (f_variant_values f)
          else None),
       p_measurement_enabled := f_measurement_enabled f,
       p_measurement_title :=
         (if f_measurement_enabled f \<and> f_measurement_title f \<noteq> []
          then Some (f_measurement_title f) else None),
       p_measurement_values :=
         (if f_measurement_enabled f \<and> f_measurement_values f \<noteq> []
          then Some (f_measurement_values f) else None),
       p_is_active := f_is_active f,
       p_featured_in_offers := f_featured_in_offers f\<rparr>"

text \<open>A row that holds only its id; the insert writes every other column of the model.\<close>

definition blank_product :: "string \<Rightarrow> product" where
  "blank_product i =
     \<lparr>p_id = i, p_name = None, p_description = None, p_image_url = None,
      p_price_per_litre = None, p_offer_price_per_litre = None, p_stock_quantity = None,
      p_category_id = None, p_variant_enabled = False, p_variant_title = None,
      p_variant_values = None, p_measurement_enabled = False, p_measurement_title = None,
      p_measurement_values = None, p_is_active = False, p_featured_in_offers = False\<rparr>"

text \<open>\<^verbatim>\<open>createProductMutation.mutationFn\<close> (it saves: an update of the row being edited, or
  an insert). \<open>new_id\<close> is the id the store gives an inserted row, \<open>writeError\<close> the
  outcome of the one store call.\<close>

definition createProductMutation ::
    "parsers \<Rightarrow> product_form \<Rightarrow> product option \<Rightarrow> string \<Rightarrow> string option \<Rightarrow> store
      \<Rightarrow> (error + unit) \<times> store" where
  "createProductMutation js f editingProduct new_id writeError s =
     (case form_error f of
        Some msg \<Rightarrow> (Inl (ValidationError msg), s)
      | None \<Rightarrow>
          (case writeError of
             Some err \<Rightarrow> (Inl (StoreError err), s)
           | None \<Rightarrow>
               (case editingProduct of
                  Some ep \<Rightarrow>
                    (Inr (),
                     s\<lparr>products :=
                         map (\<lambda>p. if p_id p = p_id ep then write_form js f p else p)
                           (products s)\<rparr>)
                | None \<Rightarrow>
                    (Inr (),
                     s\<lparr>products :=
                         products s @ [write_form js f (blank_product new_id)]\<rparr>))))"

definition deleteProductMutation ::
    "string \<Rightarrow> string option \<Rightarrow> store \<Rightarrow> (error + unit) \<times> store" where
  "deleteProductMutation productId deleteError s =
     (case deleteError of
        Some err \<Rightarrow> (Inl (StoreError err), s)
      | None \<Rightarrow> (Inr (), s\<lparr>products := filter (\<lambda>p. p_id p \<noteq> productId) (products s)\<rparr>))"

subsection \<open>The writes of the pages on the store\<close>

text \<open>
  Every mutation of the pages that writes one of the five tables of \<open>store\<close>, with what
  the page holds when it runs and what the store answers. (The other writes of the
  sources go to the tables \<^verbatim>\<open>reviews\<close> and \<^verbatim>\<open>product_categories\<close> and to the image
  storage, which \<open>store\<close> does not hold.)
\<close>

datatype operation =
    AddToCart product_detail "string option"
  | PlaceOrder env checkout
  | Complete "string option" "string option"
  | SaveProduct product_form "product option" string "string option"
  | DeleteProduct string "string option"

fun apply_operation :: "parsers \<Rightarrow> operation \<Rightarrow> store \<Rightarrow> store" where
  "apply_operation js (AddToCart pd err) s = snd (addToCartMutation pd err s)"
| "apply_operation js (PlaceOrder e ck) s = snd (placeOrderMutation e ck s)"
| "apply_operation js (Complete user err) s = snd (completeMutation user err s)"
| "apply_operation js (SaveProduct f ep new_id err) s =
     snd (createProductMutation js f ep new_id err s)"
| "apply_operation js (DeleteProduct productId err) s =
     snd (deleteProductMutation productId err s)"

definition apply_operations :: "parsers \<Rightarrow> operation list \<Rightarrow> store \<Rightarrow> store" where
  "apply_operations js ops s = foldl (\<lambda>s op. apply_operation js op s) s ops"

subsection \<open>Sample data\<close>

definition sample_product :: "rat option \<Rightarrow> rat option \<Rightarrow> product" where
  "sample_product list_price offer_price =
     (blank_product ''p1'')
       \<lparr>p_name := Some ''Groundnut oil'',
        p_price_per_litre := list_price,
        p_offer_price_per_litre := offer_price,
        p_stock_quantity := Some 40,
        p_is_active := True\<rparr>"

definition sample_row :: "string \<Rightarrow> string \<Rightarrow> rat \<Rightarrow> cart_row" where
  "sample_row uid pid q =
     \<lparr>cr_user_id = uid, cr_product_id = pid, cr_quantity_litres = q,
      cr_variant_selection = None, cr_measurement_label = None,
      cr_measurement_value = None\<rparr>"

definition sample_item :: "product option \<Rightarrow> rat \<Rightarrow> cart_item" where
  "sample_item p q = cart_row.extend (sample_row ''u1'' ''p1'' q) \<lparr>ci_products = p\<rparr>"

definition sample_coupon :: "string \<Rightarrow> string \<Rightarrow> rat \<Rightarrow> rat option \<Rightarrow> coupon" where
  "sample_coupon code ty v cap =
     \<lparr>c_code = code, c_discount_type = ty, c_discount_value = v,
      c_min_order_amount = None, c_max_discount_amount = cap,
      c_valid_until = None, c_is_active = True\<rparr>"

definition sample_checkout :: "cart_item list \<Rightarrow> coupon option \<Rightarrow> checkout" where
  "sample_checkout items c =
     \<lparr>ck_user = Some ''u1'', ck_cartItems = Some items,
      ck_address = ''12 Mill Road, Salem'', ck_couponCode = [],
      ck_appliedCoupon = c\<rparr>"

definition sample_env :: "string option \<Rightarrow> env" where
  "sample_env itemsError =
     \<lparr>e_now = 5000, e_random = 42, e_order_id = ''o1'',
      e_orderError = None, e_itemsError = itemsError\<rparr>"

definition empty_store :: store where
  "empty_store = \<lparr>products = [], cart_items = [], coupons = [], orders = [], order_items = []\<rparr>"

text \<open>A cart of two lines: one product with list price 100 and offer price 150, one with
  list price 80 and no offer price.\<close>

definition two_lines :: "cart_item list" where
  "two_lines =
     [sample_item (Some (sample_product (Some 100) (Some 150))) 2,
      sample_item (Some (sample_product (Some 80) None)) 1]"

definition two_line_order :: order where
  "two_line_order = new_order (sample_env None) (sample_checkout two_lines None) ''u1''"

definition two_line_store :: store where
  "two_line_store =
     empty_store
       \<lparr>orders := orders empty_store @ [two_line_order],
        order_items := order_items empty_store @ map (orderItem two_line_order) two_lines\<rparr>"

text \<open>A cart worth 150 with a fixed coupon of 200; a cart worth 1000 with a coupon of 20
  percent capped at 150, and the same with the cap set to 0; a cart worth 1.1 with a fixed
  coupon of 0.2, both as the doubles nearest to these decimals.\<close>

definition tenths_checkout :: checkout where
  "tenths_checkout =
     sample_checkout [sample_item (Some (sample_product (Some (round_double (11 / 10))) None)) 1]
       (Some (sample_coupon ''OFF02'' ''fixed'' (round_double (2 / 10)) None))"

definition fixed_checkout :: checkout where
  "fixed_checkout =
     sample_checkout [sample_item (Some (sample_product (Some 150) None)) 1]
       (Some (sample_coupon ''FLAT200'' ''fixed'' 200 None))"

definition capped_coupon :: "rat \<Rightarrow> coupon" where
  "capped_coupon cap = sample_coupon ''SAVE20'' ''percentage'' 20 (Some cap)"

definition capped_checkout :: "rat \<Rightarrow> checkout" where
  "capped_checkout cap =
     sample_checkout [sample_item (Some (sample_product (Some 1000) None)) 1]
       (Some (capped_coupon cap))"

text \<open>A cart line whose product is missing, after a line with a price.\<close>

definition unpriced_line :: cart_item where
  "unpriced_line = sample_item None 3"

definition priced_line :: cart_item where
  "priced_line = sample_item (Some (sample_product (Some 80) None)) 1"

definition unpriced_checkout :: checkout where
  "unpriced_checkout = sample_checkout [priced_line, unpriced_line] None"







text \<open>A store with cart rows of two users.\<close>

definition cart_store :: store where
  "cart_store =
     empty_store
       \<lparr>cart_items :=
          [sample_row ''u1'' ''p1'' 2, sample_row ''u2'' ''p1'' 1, sample_row ''u1'' ''p2'' 3]\<rparr>"

text \<open>A store after the order of the two-line cart: the product, cart rows of two users,
  the order and its items. A form that changes the product's prices, with parsers that
  read the three numbers on it.\<close>

definition shop_store :: store where
  "shop_store =
     two_line_store
       \<lparr>products := [sample_product (Some 100) (Some 150)],
        cart_items :=
          [sample_row ''u1'' ''p1'' 2, sample_row ''u2'' ''p1'' 1, sample_row ''u1'' ''p2'' 3]\<rparr>"

definition sample_parsers :: parsers where
  "sample_parsers =
     \<lparr>parseFloat = (\<lambda>s. if s = ''120'' then Some 120 else if s = ''90'' then Some 90 else None),
      parseInt = (\<lambda>s. if s = ''40'' then Some 40 else None)\<rparr>"

definition sample_form :: product_form where
  "sample_form =
     \<lparr>f_name = ''Groundnut oil'', f_description = [], f_price_per_litre = ''120'',
      f_offer_price_per_litre = ''90'', f_stock_quantity = ''40'', f_image_url = [],
      f_category_id = [], f_variant_enabled = False, f_variant_title = [],
      f_variant_values = [], f_measurement_enabled = False, f_measurement_title = [],
      f_measurement_values = [], f_is_active = True, f_featured_in_offers = False\<rparr>"

definition admin_edits :: "operation list" where
  "admin_edits =
     [SaveProduct sample_form (Some (sample_product (Some 100) (Some 150))) ''p9'' None,
      DeleteProduct ''p1'' None]"

subsection \<open>An invariant of the confirmation page\<close>

text \<open>
  What holds of the page in every state it reaches: \<^verbatim>\<open>sending\<close> is set exactly when
  \<^verbatim>\<open>window.open\<close> has been called, which happens at most once; before that no timer is
  armed, completion is not enabled and has not been invoked; and the one hand-off
  carried a reference that was not empty, its timer is due 3000 ms after it, completion
  is enabled only once that time has passed, and every completion was invoked after it.
\<close>

definition handed_off :: "confirmation \<Rightarrow> bool" where
  "handed_off c =
     ((pc_sending c \<longleftrightarrow> pc_opened c \<noteq> [])
      \<and> length (pc_opened c) \<le> 1
      \<and> (\<not> pc_sending c \<longrightarrow>
            pc_timer c = None \<and> \<not> pc_canComplete c \<and> pc_completed c = [])
      \<and> (\<forall>(t, u)\<in>set (pc_opened c).
            u \<noteq> [] \<and> t \<le> pc_clock c
            \<and> (pc_timer c = None \<or> pc_timer c = Some (t + 3000))
            \<and> (pc_canComplete c \<longrightarrow> t + 3000 \<le> pc_clock c)
            \<and> (\<forall>x\<in>set (pc_completed c). t + 3000 \<le> x)))"

text \<open>A session on the page: the reference is typed, completion is tried too early
  (before the hand-off, and 2999 ms after it), the reference is cleared, and completion
  succeeds 3000 ms after the hand-off.\<close>

definition paying :: "event list" where
  "paying =
     [SetUtr ''UTR123'', ClickComplete, ClickSend, Elapse 2999, TimerFires, ClickComplete,
      SetUtr [], Elapse 1, TimerFires, ClickComplete, ClickSend]"

section \<open>Properties\<close>

subsection \<open>Auxiliary facts\<close>

lemma foldl_add_sum_list:
  "foldl (\<lambda>sum item. sum + f item) a xs = a + sum_list (map f xs)" for a :: rat
  by (induction xs arbitrary: a) (simp_all add: add.assoc)

lemma subtotal_sum_list:
  "ck_cartItems ck = Some items \<Longrightarrow>
   subtotal ck = (\<Sum>i\<leftarrow>items. price i * cr_quantity_litres i)"
  by (simp add: subtotal_def foldl_add_sum_list)

lemma price_offer:
  "ci_products i = Some p \<Longrightarrow> p_offer_price_per_litre p = Some x \<Longrightarrow> x \<noteq> 0 \<Longrightarrow> price i = x"
  by (simp add: price_def or_num_def)

lemma price_list:
  "ci_products i = Some p \<Longrightarrow> \<not> truthy_num (p_offer_price_per_litre p) \<Longrightarrow>
   price i = or_zero (p_price_per_litre p)"
  by (simp add: price_def or_num_def)

lemma price_no_product: "ci_products i = None \<Longrightarrow> price i = 0"
  by (simp add: price_def or_num_def)

lemma or_zero_falsy: "\<not> truthy_num a \<Longrightarrow> or_zero a = 0"
  by (cases a) simp_all

lemma createSupabaseOrder_success:
  assumes "ck_user ck = Some uid" "ck_cartItems ck = Some items" "items \<noteq> []"
    "e_orderError e = None" "e_itemsError e = None"
  shows "createSupabaseOrder e ck s =
     (Inr (new_order e ck uid),
      s\<lparr>orders := orders s @ [new_order e ck uid],
        order_items := order_items s @ map (orderItem (new_order e ck uid)) items\<rparr>)"
  using assms by (cases items) (simp_all add: createSupabaseOrder_def Let_def)

lemma createSupabaseOrder_Inr:
  assumes "createSupabaseOrder e ck s = (Inr ord, s')"
  shows "\<exists>uid items. ck_user ck = Some uid \<and> ck_cartItems ck = Some items \<and> items \<noteq> []
           \<and> e_orderError e = None \<and> e_itemsError e = None
           \<and> ord = new_order e ck uid
           \<and> s' = s\<lparr>orders := orders s @ [ord],
                     order_items := order_items s @ map (orderItem ord) items\<rparr>"
  using assms
  by (auto simp: createSupabaseOrder_def Let_def split: option.splits list.splits)

lemma two_line_created:
  "createSupabaseOrder (sample_env None) (sample_checkout two_lines None) empty_store
     = (Inr two_line_order, two_line_store)"
  unfolding two_line_order_def two_line_store_def
  by (rule createSupabaseOrder_success)
     (simp_all add: sample_checkout_def sample_env_def two_lines_def)

subsection \<open>The effective unit price\<close>

text \<open>
  Claim C1, as stated, fails. A product with list price 100 and offer price 150: the
  offer price is not lower than the list price, and the unit price of the line is the
  offer price, 150, not the list price.
\<close>

theorem C1_offer_not_lower_counterexample:
  "\<not> (150 :: rat) < 100
   \<and> price (sample_item (Some (sample_product (Some 100) (Some 150))) 2) = 150
   \<and> price (sample_item (Some (sample_product (Some 100) (Some 150))) 2) \<noteq> 100"
  by (simp add: price_def or_num_def sample_item_def sample_product_def
        blank_product_def cart_row.extend_def)

text \<open>
  Claim C1, amended. Whenever \<^verbatim>\<open>createSupabaseOrder\<close> succeeds, the subtotal (which is the
  order's \<^verbatim>\<open>total_amount\<close>) is the sum over the cart lines of unit price times quantity,
  the inserted order items are the images of the cart lines, and for every line the unit
  price in the subtotal is the \<^verbatim>\<open>price_per_litre\<close> of its order item. That unit price is the
  product's offer price whenever the offer price is present and not 0, whether or not it
  is lower than the list price; otherwise it is the list price (0 when that is absent).
\<close>

theorem C1_unit_price_offer_when_set:
  assumes "createSupabaseOrder e ck s = (Inr ord, s')"
  shows "\<exists>items. ck_cartItems ck = Some items
           \<and> subtotal ck = (\<Sum>i\<leftarrow>items. price i * cr_quantity_litres i)
           \<and> o_total_amount ord = subtotal ck
           \<and> order_items s' = order_items s @ map (orderItem ord) items
           \<and> (\<forall>i\<in>set items.
                 oi_price_per_litre (orderItem ord i) = price i
                 \<and> (\<forall>p x. ci_products i = Some p \<and> p_offer_price_per_litre p = Some x \<and> x \<noteq> 0
                        \<longrightarrow> price i = x)
                 \<and> (\<forall>p. ci_products i = Some p \<and> \<not> truthy_num (p_offer_price_per_litre p)
                        \<longrightarrow> price i = or_zero (p_price_per_litre p)))"
proof -
  from createSupabaseOrder_Inr [OF assms] obtain uid items where
    items: "ck_cartItems ck = Some items" and ord: "ord = new_order e ck uid" and
    s': "s' = s\<lparr>orders := orders s @ [ord],
                 order_items := order_items s @ map (orderItem ord) items\<rparr>"
    by blast
  have "subtotal ck = (\<Sum>i\<leftarrow>items. price i * cr_quantity_litres i)"
    using items by (rule subtotal_sum_list)
  moreover have "o_total_amount ord = subtotal ck"
    by (simp add: ord new_order_def)
  moreover have "order_items s' = order_items s @ map (orderItem ord) items"
    by (simp add: s')
  moreover have "\<forall>i\<in>set items.
                 oi_price_per_litre (orderItem ord i) = price i
                 \<and> (\<forall>p x. ci_products i = Some p \<and> p_offer_price_per_litre p = Some x \<and> x \<noteq> 0
                        \<longrightarrow> price i = x)
                 \<and> (\<forall>p. ci_products i = Some p \<and> \<not> truthy_num (p_offer_price_per_litre p)
                        \<longrightarrow> price i = or_zero (p_price_per_litre p))"
    by (auto simp: orderItem_def price_offer price_list)
  ultimately show ?thesis using items by blast
qed

text \<open>Claim C1, amended, on the cart of two lines.\<close>

theorem C1_unit_price_witness:
  "createSupabaseOrder (sample_env None) (sample_checkout two_lines None) empty_store
     = (Inr two_line_order, two_line_store)
   \<and> (\<exists>items. ck_cartItems (sample_checkout two_lines None) = Some items
           \<and> subtotal (sample_checkout two_lines None)
                 = (\<Sum>i\<leftarrow>items. price i * cr_quantity_litres i)
           \<and> o_total_amount two_line_order = subtotal (sample_checkout two_lines None)
           \<and> order_items two_line_store
                 = order_items empty_store @ map (orderItem two_line_order) items
           \<and> (\<forall>i\<in>set items.
                 oi_price_per_litre (orderItem two_line_order i) = price i
                 \<and> (\<forall>p x. ci_products i = Some p \<and> p_offer_price_per_litre p = Some x \<and> x \<noteq> 0
                        \<longrightarrow> price i = x)
                 \<and> (\<forall>p. ci_products i = Some p \<and> \<not> truthy_num (p_offer_price_per_litre p)
                        \<longrightarrow> price i = or_zero (p_price_per_litre p))))"
  using two_line_created C1_unit_price_offer_when_set [OF two_line_created]
  by (rule conjI)

subsection \<open>The discount\<close>

lemmas sample_defs = sample_checkout_def sample_item_def sample_row_def sample_product_def
  sample_coupon_def sample_env_def blank_product_def cart_row.extend_def empty_store_def

lemma createSupabaseOrder_orders:
  "orders (snd (createSupabaseOrder e ck s)) = orders s
   \<or> (\<exists>uid. ck_user ck = Some uid
         \<and> orders (snd (createSupabaseOrder e ck s)) = orders s @ [new_order e ck uid])"
  by (auto simp: createSupabaseOrder_def Let_def split: option.splits list.splits)

lemma round_double_integers:
  "round_double (- 50) = - 50" "round_double 20000 = 20000" "round_double 200 = 200"
  by code_simp+

lemma round_double_tenths:
  "round_double (round_double (11 / 10) - round_double (1 / 5))
     \<noteq> round_double (11 / 10) - round_double (1 / 5)"
  by code_simp

text \<open>
  Claim C2, as stated, fails. A fixed coupon of 200 on a cart worth 150 gives a discount
  of 200, above the subtotal, and a total of -50: nothing clamps it. A coupon of 20
  percent whose \<^verbatim>\<open>max_discount_amount\<close> is set to 0 gives, on a cart worth 1000, a
  discount of 200, above that 0. And on a cart worth 1.1 with a fixed coupon of 0.2 the
  total, a double subtraction, is not the difference of subtotal and discount.
\<close>

theorem C2_discount_above_subtotal_counterexample:
  "subtotal fixed_checkout = 150 \<and> discount fixed_checkout = 200
   \<and> \<not> discount fixed_checkout \<le> subtotal fixed_checkout
   \<and> total fixed_checkout < 0
   \<and> c_max_discount_amount (capped_coupon 0) = Some 0
   \<and> discount (capped_checkout 0) = 200
   \<and> \<not> discount (capped_checkout 0) \<le> 0
   \<and> total tenths_checkout \<noteq> subtotal tenths_checkout - discount tenths_checkout"
proof -
  have fixed: "subtotal fixed_checkout = 150" "discount fixed_checkout = 200"
    by (simp_all add: fixed_checkout_def subtotal_def discount_def price_def or_num_def
          sample_defs)
  have capped: "c_max_discount_amount (capped_coupon 0) = Some 0"
    "discount (capped_checkout 0) = 200"
    by (simp_all add: capped_checkout_def capped_coupon_def subtotal_def discount_def
          or_Infinity_def price_def or_num_def sample_defs round_double_integers)
  have tenths: "subtotal tenths_checkout = round_double (11 / 10)"
    "discount tenths_checkout = round_double (1 / 5)"
    by (simp_all add: tenths_checkout_def subtotal_def discount_def price_def or_num_def
          sample_defs)
  have "total tenths_checkout \<noteq> subtotal tenths_checkout - discount tenths_checkout"
    unfolding total_def tenths by (rule round_double_tenths)
  with fixed capped show ?thesis
    by (simp add: total_def round_double_integers)
qed

text \<open>
  Claim C2, amended. The total is the subtotal minus the discount as the double
  subtraction returns it, and every order row that \<^verbatim>\<open>createSupabaseOrder\<close> adds has for
  \<^verbatim>\<open>final_amount\<close> that rounded difference of its \<^verbatim>\<open>total_amount\<close> and its
  \<^verbatim>\<open>discount_amount\<close>. Without a coupon the discount is 0. A percentage discount never
  exceeds \<^verbatim>\<open>max_discount_amount\<close> when that is set and not 0. A discount of any other
  type is the coupon's \<^verbatim>\<open>discount_value\<close>, whatever the subtotal.
\<close>

theorem C2_discount_bounds:
  "total ck = round_double (subtotal ck - discount ck)
   \<and> (\<forall>r\<in>set (orders (snd (createSupabaseOrder e ck s))).
         r \<in> set (orders s)
         \<or> o_final_amount r = round_double (o_total_amount r - o_discount_amount r))
   \<and> (ck_appliedCoupon ck = None \<longrightarrow> discount ck = 0)
   \<and> (\<forall>c. ck_appliedCoupon ck = Some c \<and> c_discount_type c = ''percentage'' \<longrightarrow>
         (\<forall>m. c_max_discount_amount c = Some m \<and> m \<noteq> 0 \<longrightarrow> discount ck \<le> m))
   \<and> (\<forall>c. ck_appliedCoupon ck = Some c \<and> c_discount_type c \<noteq> ''percentage'' \<longrightarrow>
         discount ck = c_discount_value c)"
proof (intro conjI allI impI ballI)
  show "total ck = round_double (subtotal ck - discount ck)" by (simp add: total_def)
next
  fix r assume "r \<in> set (orders (snd (createSupabaseOrder e ck s)))"
  with createSupabaseOrder_orders [of e ck s]
  show "r \<in> set (orders s)
        \<or> o_final_amount r = round_double (o_total_amount r - o_discount_amount r)"
    by (auto simp: new_order_def total_def)
next
  assume "ck_appliedCoupon ck = None"
  then show "discount ck = 0" by (simp add: discount_def)
next
  fix c m
  assume "ck_appliedCoupon ck = Some c \<and> c_discount_type c = ''percentage''"
    "c_max_discount_amount c = Some m \<and> m \<noteq> 0"
  then show "discount ck \<le> m" by (simp add: discount_def or_Infinity_def)
next
  fix c assume "ck_appliedCoupon ck = Some c \<and> c_discount_type c \<noteq> ''percentage''"
  then show "discount ck = c_discount_value c" by (simp add: discount_def)
qed

text \<open>Claim C2, amended, on the cart worth 1000 with 20 percent capped at 150: the
  discount is at most 150, and the order row added has the rounded difference as its
  final amount; on the cart with the fixed coupon, and on a cart without a coupon.\<close>

theorem C2_discount_bounds_witness:
  "ck_appliedCoupon (capped_checkout 150) = Some (capped_coupon 150)
   \<and> c_discount_type (capped_coupon 150) = ''percentage''
   \<and> c_max_discount_amount (capped_coupon 150) = Some 150
   \<and> discount (capped_checkout 150) \<le> 150
   \<and> total (capped_checkout 150)
        = round_double (subtotal (capped_checkout 150) - discount (capped_checkout 150))
   \<and> new_order (sample_env None) (capped_checkout 150) ''u1''
        \<in> set (orders (snd (createSupabaseOrder (sample_env None) (capped_checkout 150)
                              empty_store)))
   \<and> new_order (sample_env None) (capped_checkout 150) ''u1'' \<notin> set (orders empty_store)
   \<and> o_final_amount (new_order (sample_env None) (capped_checkout 150) ''u1'')
        = round_double
            (o_total_amount (new_order (sample_env None) (capped_checkout 150) ''u1'')
             - o_discount_amount (new_order (sample_env None) (capped_checkout 150) ''u1''))
   \<and> ck_appliedCoupon fixed_checkout = Some (sample_coupon ''FLAT200'' ''fixed'' 200 None)
   \<and> c_discount_type (sample_coupon ''FLAT200'' ''fixed'' 200 None) \<noteq> ''percentage''
   \<and> discount fixed_checkout = c_discount_value (sample_coupon ''FLAT200'' ''fixed'' 200 None)
   \<and> ck_appliedCoupon (sample_checkout two_lines None) = None
   \<and> discount (sample_checkout two_lines None) = 0"
proof -
  have fixed: "ck_appliedCoupon fixed_checkout = Some (sample_coupon ''FLAT200'' ''fixed'' 200 None)
     \<and> c_discount_type (sample_coupon ''FLAT200'' ''fixed'' 200 None) \<noteq> ''percentage''"
    by (simp add: fixed_checkout_def sample_checkout_def sample_coupon_def)
  with C2_discount_bounds [of fixed_checkout]
  have fixed_eq:
    "discount fixed_checkout = c_discount_value (sample_coupon ''FLAT200'' ''fixed'' 200 None)"
    by blast
  have none: "ck_appliedCoupon (sample_checkout two_lines None) = None"
    by (simp add: sample_checkout_def)
  with C2_discount_bounds [of "sample_checkout two_lines None"]
  have none_eq: "discount (sample_checkout two_lines None) = 0"
    by blast
  have hyp: "ck_appliedCoupon (capped_checkout 150) = Some (capped_coupon 150)
     \<and> c_discount_type (capped_coupon 150) = ''percentage''"
    "c_max_discount_amount (capped_coupon 150) = Some 150 \<and> (150::rat) \<noteq> 0"
    by (simp_all add: capped_checkout_def capped_coupon_def sample_checkout_def
          sample_coupon_def)
  have mem: "new_order (sample_env None) (capped_checkout 150) ''u1''
        \<in> set (orders (snd (createSupabaseOrder (sample_env None) (capped_checkout 150)
                              empty_store)))"
    "new_order (sample_env None) (capped_checkout 150) ''u1'' \<notin> set (orders empty_store)"
    by (simp_all add: createSupabaseOrder_def Let_def capped_checkout_def sample_checkout_def
          sample_env_def empty_store_def)
  from C2_discount_bounds [of "capped_checkout 150" "sample_env None" empty_store] hyp mem
  have "discount (capped_checkout 150) \<le> 150
     \<and> total (capped_checkout 150)
          = round_double (subtotal (capped_checkout 150) - discount (capped_checkout 150))
     \<and> o_final_amount (new_order (sample_env None) (capped_checkout 150) ''u1'')
        = round_double
            (o_total_amount (new_order (sample_env None) (capped_checkout 150) ''u1'')
             - o_discount_amount (new_order (sample_env None) (capped_checkout 150) ''u1''))"
    by blast
  with hyp mem fixed fixed_eq none none_eq show ?thesis by simp
qed

subsection \<open>Cart lines without a price\<close>

lemma subtotal_skip:
  assumes "price i = 0"
  shows "subtotal (ck\<lparr>ck_cartItems := Some (xs @ i # ys)\<rparr>)
       = subtotal (ck\<lparr>ck_cartItems := Some (xs @ ys)\<rparr>)"
  using assms by (simp add: subtotal_def foldl_add_sum_list)

lemma price_zero:
  assumes "ci_products i = None
     \<or> (\<exists>p. ci_products i = Some p \<and> \<not> truthy_num (p_offer_price_per_litre p)
            \<and> \<not> truthy_num (p_price_per_litre p))"
  shows "price i = 0"
  using assms by (auto simp: price_no_product price_list or_zero_falsy)

lemma placeOrderMutation_success:
  assumes "ck_user ck = Some uid" "ck_cartItems ck = Some items" "items \<noteq> []"
    "\<not> length (ck_address ck) < 10" "e_orderError e = None" "e_itemsError e = None"
  shows "placeOrderMutation e ck s =
     (Inr (new_order e ck uid),
      s\<lparr>orders := orders s @ [new_order e ck uid],
        order_items := order_items s @ map (orderItem (new_order e ck uid)) items\<rparr>)"
  using assms createSupabaseOrder_success [OF assms(1,2,3,5,6), of s]
  by (cases items) (simp_all add: placeOrderMutation_def checkoutSchema_parse_def)

text \<open>
  Claim C10. A cart line whose joined product is missing, or whose product has neither a
  truthy offer price nor a truthy list price (each \<^verbatim>\<open>null\<close> or 0), has unit price 0 and
  adds nothing to the subtotal, wherever it stands in the cart. Checkout with such a line
  does not fail on its account: with a signed-in user, an address of at least 10
  characters and a store that accepts both inserts, \<^verbatim>\<open>placeOrderMutation\<close> returns the
  order and has inserted the line's order item, with \<^verbatim>\<open>price_per_litre\<close> 0 and
  \<^verbatim>\<open>total_price\<close> 0.
\<close>

theorem C10_unpriced_line:
  assumes "ci_products i = None
     \<or> (\<exists>p. ci_products i = Some p \<and> \<not> truthy_num (p_offer_price_per_litre p)
            \<and> \<not> truthy_num (p_price_per_litre p))"
  shows "price i = 0
    \<and> subtotal (ck\<lparr>ck_cartItems := Some (xs @ i # ys)\<rparr>)
       = subtotal (ck\<lparr>ck_cartItems := Some (xs @ ys)\<rparr>)
    \<and> (\<forall>uid items. ck_user ck = Some uid \<and> ck_cartItems ck = Some items \<and> i \<in> set items
          \<and> \<not> length (ck_address ck) < 10 \<and> e_orderError e = None \<and> e_itemsError e = None
        \<longrightarrow> (\<exists>ord s'. placeOrderMutation e ck s = (Inr ord, s')
               \<and> orderItem ord i \<in> set (order_items s')
               \<and> oi_price_per_litre (orderItem ord i) = 0
               \<and> oi_total_price (orderItem ord i) = 0))"
proof -
  have z: "price i = 0" using assms by (rule price_zero)
  have "\<exists>ord s'. placeOrderMutation e ck s = (Inr ord, s')
               \<and> orderItem ord i \<in> set (order_items s')
               \<and> oi_price_per_litre (orderItem ord i) = 0
               \<and> oi_total_price (orderItem ord i) = 0"
    if h: "ck_user ck = Some uid \<and> ck_cartItems ck = Some items \<and> i \<in> set items
          \<and> \<not> length (ck_address ck) < 10 \<and> e_orderError e = None \<and> e_itemsError e = None"
    for uid items
  proof -
    let ?ord = "new_order e ck uid"
    let ?s' = "s\<lparr>orders := orders s @ [?ord],
                  order_items := order_items s @ map (orderItem ?ord) items\<rparr>"
    from h have ne: "items \<noteq> []" by auto
    from h ne have "placeOrderMutation e ck s = (Inr ?ord, ?s')"
      by (intro placeOrderMutation_success) simp_all
    moreover have "orderItem ?ord i \<in> set (order_items ?s')"
      using h by simp
    moreover have "oi_price_per_litre (orderItem ?ord i) = 0"
      "oi_total_price (orderItem ?ord i) = 0"
      using z by (simp_all add: orderItem_def)
    ultimately show ?thesis by blast
  qed
  with z subtotal_skip [OF z] show ?thesis by blast
qed

text \<open>Claim C10 on a cart of a priced line followed by a line whose product is
  missing.\<close>

theorem C10_unpriced_line_witness:
  "ci_products unpriced_line = None
   \<and> price unpriced_line = 0
   \<and> subtotal (unpriced_checkout\<lparr>ck_cartItems := Some ([priced_line] @ unpriced_line # [])\<rparr>)
       = subtotal (unpriced_checkout\<lparr>ck_cartItems := Some ([priced_line] @ [])\<rparr>)
   \<and> (\<exists>ord s'. placeOrderMutation (sample_env None) unpriced_checkout empty_store = (Inr ord, s')
               \<and> orderItem ord unpriced_line \<in> set (order_items s')
               \<and> oi_price_per_litre (orderItem ord unpriced_line) = 0
               \<and> oi_total_price (orderItem ord unpriced_line) = 0)"
proof -
  have hyp: "ci_products unpriced_line = None"
    by (simp add: unpriced_line_def sample_defs)
  then have hyp': "ci_products unpriced_line = None
     \<or> (\<exists>p. ci_products unpriced_line = Some p \<and> \<not> truthy_num (p_offer_price_per_litre p)
            \<and> \<not> truthy_num (p_price_per_litre p))" ..
  have pre: "ck_user unpriced_checkout = Some ''u1''
      \<and> ck_cartItems unpriced_checkout = Some [priced_line, unpriced_line]
      \<and> unpriced_line \<in> set [priced_line, unpriced_line]
      \<and> \<not> length (ck_address unpriced_checkout) < 10
      \<and> e_orderError (sample_env None) = None \<and> e_itemsError (sample_env None) = None"
    by (simp add: unpriced_checkout_def sample_checkout_def sample_env_def)
  from C10_unpriced_line [OF hyp', where ck = unpriced_checkout and xs = "[priced_line]"
      and ys = "[]" and e = "sample_env None" and s = empty_store]
    hyp pre
  show ?thesis by blast
qed

subsection \<open>Applying a coupon\<close>













subsection \<open>Rejected and half-done checkouts\<close>

lemma placeOrder_short:
  "ck_user ck = Some uid \<Longrightarrow> length (ck_address ck) < 10 \<Longrightarrow>
   placeOrderMutation e ck s
     = (Inl (ValidationError ''Address must be at least 10 characters''), s)"
  by (simp add: placeOrderMutation_def checkoutSchema_parse_def)

lemma placeOrder_empty:
  "ck_user ck = Some uid \<Longrightarrow> \<not> length (ck_address ck) < 10 \<Longrightarrow>
   ck_cartItems ck = None \<or> ck_cartItems ck = Some [] \<Longrightarrow>
   placeOrderMutation e ck s = (Inl EmptyCartError, s)"
  by (auto simp: placeOrderMutation_def checkoutSchema_parse_def)

lemma createSupabaseOrder_empty:
  "ck_cartItems ck = None \<or> ck_cartItems ck = Some [] \<Longrightarrow>
   createSupabaseOrder e ck s = (Inl EmptyCartError, s)"
  by (auto simp: createSupabaseOrder_def split: option.splits)

text \<open>
  Claim C6. For a signed-in user: with an address of fewer than 10 characters
  \<^verbatim>\<open>placeOrderMutation\<close> fails with the validation error of the schema; with an empty cart
  (not loaded, or of no lines) \<^verbatim>\<open>createSupabaseOrder\<close> fails with \<open>EmptyCartError\<close>, and so
  does \<^verbatim>\<open>placeOrderMutation\<close> unless the address is too short, in which case the validation
  error comes first. In each of these failures the store is returned as it was: no order
  row and no order item row is written.
\<close>

theorem C6_rejected_checkout:
  assumes "ck_user ck = Some uid"
  shows "(length (ck_address ck) < 10 \<longrightarrow>
            placeOrderMutation e ck s
              = (Inl (ValidationError ''Address must be at least 10 characters''), s))
       \<and> (ck_cartItems ck = None \<or> ck_cartItems ck = Some [] \<longrightarrow>
            createSupabaseOrder e ck s = (Inl EmptyCartError, s)
            \<and> (\<not> length (ck_address ck) < 10 \<longrightarrow>
                  placeOrderMutation e ck s = (Inl EmptyCartError, s))
            \<and> (\<exists>err. placeOrderMutation e ck s = (Inl err, s)))"
  using assms placeOrder_short [of ck uid e s] placeOrder_empty [of ck uid e s]
    createSupabaseOrder_empty [of ck e s]
  by (cases "length (ck_address ck) < 10") auto

text \<open>Claim C6 on a page with the address \<^verbatim>\<open>Salem\<close> and a cart of two lines, and on a page
  with a valid address and an empty cart.\<close>

theorem C6_rejected_checkout_witness:
  "ck_user ((sample_checkout two_lines None)\<lparr>ck_address := ''Salem''\<rparr>) = Some ''u1''
   \<and> length (ck_address ((sample_checkout two_lines None)\<lparr>ck_address := ''Salem''\<rparr>)) < 10
   \<and> placeOrderMutation (sample_env None)
        ((sample_checkout two_lines None)\<lparr>ck_address := ''Salem''\<rparr>) two_line_store
      = (Inl (ValidationError ''Address must be at least 10 characters''), two_line_store)
   \<and> ck_user (sample_checkout [] None) = Some ''u1''
   \<and> ck_cartItems (sample_checkout [] None) = Some []
   \<and> \<not> length (ck_address (sample_checkout [] None)) < 10
   \<and> createSupabaseOrder (sample_env None) (sample_checkout [] None) two_line_store
      = (Inl EmptyCartError, two_line_store)
   \<and> placeOrderMutation (sample_env None) (sample_checkout [] None) two_line_store
      = (Inl EmptyCartError, two_line_store)"
proof -
  have u: "ck_user ((sample_checkout two_lines None)\<lparr>ck_address := ''Salem''\<rparr>) = Some ''u1''"
    "ck_user (sample_checkout [] None) = Some ''u1''"
    by (simp_all add: sample_checkout_def)
  have h: "length (ck_address ((sample_checkout two_lines None)\<lparr>ck_address := ''Salem''\<rparr>)) < 10"
    "ck_cartItems (sample_checkout [] None) = Some []"
    "\<not> length (ck_address (sample_checkout [] None)) < 10"
    by (simp_all add: sample_checkout_def)
  from C6_rejected_checkout [OF u(1), of "sample_env None" two_line_store]
    C6_rejected_checkout [OF u(2), of "sample_env None" two_line_store] u h
  show ?thesis by simp
qed

text \<open>
  Claim C7. With a signed-in user and a cart that is not empty, when the store accepts
  the insert into \<^verbatim>\<open>orders\<close> and refuses the insert into \<^verbatim>\<open>order_items\<close>,
  \<^verbatim>\<open>createSupabaseOrder\<close> throws the store's error, and the store it leaves holds the new
  order row, in status \<^verbatim>\<open>pending\<close> with payment status \<^verbatim>\<open>pending\<close>, and no new order
  item: the order row is not taken back. With a valid address \<^verbatim>\<open>placeOrderMutation\<close> does
  the same.
\<close>

theorem C7_items_insert_fails:
  assumes "ck_user ck = Some uid" "ck_cartItems ck = Some items" "items \<noteq> []"
    "e_orderError e = None" "e_itemsError e = Some err"
  shows "createSupabaseOrder e ck s
           = (Inl (StoreError err), s\<lparr>orders := orders s @ [new_order e ck uid]\<rparr>)
       \<and> o_status (new_order e ck uid) = ''pending''
       \<and> o_payment_status (new_order e ck uid) = ''pending''
       \<and> orders (snd (createSupabaseOrder e ck s)) = orders s @ [new_order e ck uid]
       \<and> order_items (snd (createSupabaseOrder e ck s)) = order_items s
       \<and> (\<not> length (ck_address ck) < 10 \<longrightarrow>
            placeOrderMutation e ck s = createSupabaseOrder e ck s)"
  using assms
  by (cases items)
     (simp_all add: createSupabaseOrder_def placeOrderMutation_def checkoutSchema_parse_def
        Let_def new_order_def)

text \<open>Claim C7 on the cart of two lines, with a store that refuses the order items.\<close>

theorem C7_items_insert_fails_witness:
  "ck_user (sample_checkout two_lines None) = Some ''u1''
   \<and> ck_cartItems (sample_checkout two_lines None) = Some two_lines
   \<and> two_lines \<noteq> []
   \<and> e_orderError (sample_env (Some ''insert refused'')) = None
   \<and> e_itemsError (sample_env (Some ''insert refused'')) = Some ''insert refused''
   \<and> \<not> length (ck_address (sample_checkout two_lines None)) < 10
   \<and> placeOrderMutation (sample_env (Some ''insert refused'')) (sample_checkout two_lines None)
        empty_store
      = (Inl (StoreError ''insert refused''),
         empty_store
           \<lparr>orders := orders empty_store
              @ [new_order (sample_env (Some ''insert refused''))
                   (sample_checkout two_lines None) ''u1'']\<rparr>)
   \<and> order_items (snd (createSupabaseOrder (sample_env (Some ''insert refused''))
                          (sample_checkout two_lines None) empty_store))
      = order_items empty_store"
proof -
  have h: "ck_user (sample_checkout two_lines None) = Some ''u1''"
    "ck_cartItems (sample_checkout two_lines None) = Some two_lines"
    "two_lines \<noteq> []"
    "e_orderError (sample_env (Some ''insert refused'')) = None"
    "e_itemsError (sample_env (Some ''insert refused'')) = Some ''insert refused''"
    by (simp_all add: sample_checkout_def sample_env_def two_lines_def)
  have a: "\<not> length (ck_address (sample_checkout two_lines None)) < 10"
    by (simp add: sample_checkout_def)
  from C7_items_insert_fails [OF h, of empty_store] h a
  show ?thesis by simp
qed

subsection \<open>Releasing the cart\<close>

lemma completeMutation_ok:
  "completeMutation (Some uid) None s
     = (Inr (), s\<lparr>cart_items := filter (\<lambda>r. cr_user_id r \<noteq> uid) (cart_items s)\<rparr>)"
  by (simp add: completeMutation_def)

text \<open>
  Claim C9. When the delete call succeeds, \<^verbatim>\<open>completeMutation\<close> for a signed-in user
  succeeds and changes only \<^verbatim>\<open>cart_items\<close>: a row of the table stays exactly when its
  \<^verbatim>\<open>user_id\<close> is not the user's, the rows that stay are unchanged and in their order, and
  the user's cart query then returns no line. Run again on the store it left, it
  succeeds and leaves that store as it is.
\<close>

theorem C9_releaseCart:
  "completeMutation (Some uid) None s
     = (Inr (), s\<lparr>cart_items := filter (\<lambda>r. cr_user_id r \<noteq> uid) (cart_items s)\<rparr>)
   \<and> (\<forall>r\<in>set (cart_items s).
         r \<in> set (cart_items (snd (completeMutation (Some uid) None s)))
           \<longleftrightarrow> cr_user_id r \<noteq> uid)
   \<and> filter (\<lambda>r. cr_user_id r \<noteq> uid) (cart_items (snd (completeMutation (Some uid) None s)))
       = filter (\<lambda>r. cr_user_id r \<noteq> uid) (cart_items s)
   \<and> cartItems_query (snd (completeMutation (Some uid) None s)) (Some uid) = []
   \<and> completeMutation (Some uid) None (snd (completeMutation (Some uid) None s))
       = (Inr (), snd (completeMutation (Some uid) None s))"
  by (auto simp: completeMutation_ok cartItems_query_def filter_empty_conv)

text \<open>Claim C9 on a store with two cart rows of user \<^verbatim>\<open>u1\<close> around one of user
  \<^verbatim>\<open>u2\<close>.\<close>

theorem C9_releaseCart_witness:
  "sample_row ''u1'' ''p1'' 2 \<in> set (cart_items cart_store)
   \<and> sample_row ''u2'' ''p1'' 1 \<in> set (cart_items cart_store)
   \<and> cart_items (snd (completeMutation (Some ''u1'') None cart_store))
       = [sample_row ''u2'' ''p1'' 1]
   \<and> sample_row ''u1'' ''p1'' 2
       \<notin> set (cart_items (snd (completeMutation (Some ''u1'') None cart_store)))
   \<and> cartItems_query (snd (completeMutation (Some ''u1'') None cart_store)) (Some ''u1'') = []
   \<and> completeMutation (Some ''u1'') None (snd (completeMutation (Some ''u1'') None cart_store))
       = (Inr (), snd (completeMutation (Some ''u1'') None cart_store))"
proof -
  have rows: "cart_items cart_store
      = [sample_row ''u1'' ''p1'' 2, sample_row ''u2'' ''p1'' 1, sample_row ''u1'' ''p2'' 3]"
    by (simp add: cart_store_def empty_store_def)
  have ids: "cr_user_id (sample_row u p q) = u" for u p q
    by (simp add: sample_row_def)
  have neq: "sample_row ''u1'' ''p1'' 2 \<noteq> sample_row ''u2'' ''p1'' 1"
    by (simp add: sample_row_def)
  have left: "cart_items (snd (completeMutation (Some ''u1'') None cart_store))
      = [sample_row ''u2'' ''p1'' 1]"
    using C9_releaseCart [of "''u1''" cart_store] by (simp add: rows ids)
  have q: "cartItems_query (snd (completeMutation (Some ''u1'') None cart_store)) (Some ''u1'')
      = []"
    and again: "completeMutation (Some ''u1'') None
        (snd (completeMutation (Some ''u1'') None cart_store))
      = (Inr (), snd (completeMutation (Some ''u1'') None cart_store))"
    using C9_releaseCart [of "''u1''" cart_store] by blast+
  have mem: "sample_row ''u1'' ''p1'' 2 \<in> set (cart_items cart_store)"
    "sample_row ''u2'' ''p1'' 1 \<in> set (cart_items cart_store)"
    by (simp_all add: rows)
  have gone: "sample_row ''u1'' ''p1'' 2
       \<notin> set (cart_items (snd (completeMutation (Some ''u1'') None cart_store)))"
    using left neq by simp
  from mem left gone q again show ?thesis by blast
qed

subsection \<open>What the writes leave alone\<close>

lemma addToCart_frame:
  "products (snd (addToCartMutation pd err s)) = products s"
  "coupons (snd (addToCartMutation pd err s)) = coupons s"
  "orders (snd (addToCartMutation pd err s)) = orders s"
  "order_items (snd (addToCartMutation pd err s)) = order_items s"
  by (simp_all add: addToCartMutation_def split: option.splits)

lemma complete_frame:
  "products (snd (completeMutation user err s)) = products s"
  "coupons (snd (completeMutation user err s)) = coupons s"
  "orders (snd (completeMutation user err s)) = orders s"
  "order_items (snd (completeMutation user err s)) = order_items s"
  by (simp_all add: completeMutation_def split: option.splits)

lemma createProduct_frame:
  "cart_items (snd (createProductMutation js f ep nid err s)) = cart_items s"
  "coupons (snd (createProductMutation js f ep nid err s)) = coupons s"
  "orders (snd (createProductMutation js f ep nid err s)) = orders s"
  "order_items (snd (createProductMutation js f ep nid err s)) = order_items s"
  by (simp_all add: createProductMutation_def split: option.splits)

lemma deleteProduct_frame:
  "cart_items (snd (deleteProductMutation pid err s)) = cart_items s"
  "coupons (snd (deleteProductMutation pid err s)) = coupons s"
  "orders (snd (deleteProductMutation pid err s)) = orders s"
  "order_items (snd (deleteProductMutation pid err s)) = order_items s"
  by (simp_all add: deleteProductMutation_def split: option.splits)

lemma createSupabaseOrder_frame:
  "products (snd (createSupabaseOrder e ck s)) = products s"
  "cart_items (snd (createSupabaseOrder e ck s)) = cart_items s"
  "coupons (snd (createSupabaseOrder e ck s)) = coupons s"
  "\<exists>new. order_items (snd (createSupabaseOrder e ck s)) = order_items s @ new"
  "\<exists>new. orders (snd (createSupabaseOrder e ck s)) = orders s @ new
         \<and> (\<forall>r\<in>set new. o_payment_status r = ''pending'')"
  by (auto simp: createSupabaseOrder_def Let_def new_order_def split: option.splits list.splits)

lemma placeOrder_frame:
  "products (snd (placeOrderMutation e ck s)) = products s"
  "cart_items (snd (placeOrderMutation e ck s)) = cart_items s"
  "coupons (snd (placeOrderMutation e ck s)) = coupons s"
  "\<exists>new. order_items (snd (placeOrderMutation e ck s)) = order_items s @ new"
  "\<exists>new. orders (snd (placeOrderMutation e ck s)) = orders s @ new
         \<and> (\<forall>r\<in>set new. o_payment_status r = ''pending'')"
  using createSupabaseOrder_frame [of e ck s]
  by (auto simp: placeOrderMutation_def split: option.splits list.splits)

lemma apply_operation_order_items:
  "\<exists>new. order_items (apply_operation js op s) = order_items s @ new"
  by (cases op)
     (simp_all add: addToCart_frame complete_frame createProduct_frame deleteProduct_frame
        placeOrder_frame)

lemma apply_operation_orders:
  "\<exists>new. orders (apply_operation js op s) = orders s @ new
         \<and> (\<forall>r\<in>set new. o_payment_status r = ''pending'')"
  by (cases op)
     (simp_all add: addToCart_frame complete_frame createProduct_frame deleteProduct_frame
        placeOrder_frame)

lemma apply_operations_order_items:
  "prefix (order_items s) (order_items (apply_operations js ops s))"
  unfolding apply_operations_def
proof (induction ops arbitrary: s)
  case Nil
  show ?case by simp
next
  case (Cons op ops)
  from apply_operation_order_items [of js op s]
  have "prefix (order_items s) (order_items (apply_operation js op s))"
    by (auto simp: prefix_def)
  also have "prefix \<dots> (order_items (foldl (\<lambda>s op. apply_operation js op s)
                                      (apply_operation js op s) ops))"
    by (rule Cons.IH)
  finally show ?case by simp
qed

lemma apply_operations_orders:
  "prefix (orders s) (orders (apply_operations js ops s))"
  unfolding apply_operations_def
proof (induction ops arbitrary: s)
  case Nil
  show ?case by simp
next
  case (Cons op ops)
  from apply_operation_orders [of js op s]
  have "prefix (orders s) (orders (apply_operation js op s))"
    by (auto simp: prefix_def)
  also have "prefix \<dots> (orders (foldl (\<lambda>s op. apply_operation js op s)
                                      (apply_operation js op s) ops))"
    by (rule Cons.IH)
  finally show ?case by simp
qed

lemma shop_order_items:
  "order_items shop_store = map (orderItem two_line_order) two_lines"
  by (simp add: shop_store_def two_line_store_def empty_store_def)

lemma shop_orders: "orders shop_store = [two_line_order]"
  by (simp add: shop_store_def two_line_store_def empty_store_def)

lemma shop_products: "products shop_store = [sample_product (Some 100) (Some 150)]"
  by (simp add: shop_store_def)

lemma shop_cart_items: "cart_items shop_store =
    [sample_row ''u1'' ''p1'' 2, sample_row ''u2'' ''p1'' 1, sample_row ''u1'' ''p2'' 3]"
  by (simp add: shop_store_def)

lemma save_changes_price:
  "map p_offer_price_per_litre
     (products (apply_operation sample_parsers
        (SaveProduct sample_form (Some (sample_product (Some 100) (Some 150))) ''p9'' None)
        shop_store)) = [Some 90]"
  by (simp add: createProductMutation_def form_error_def write_form_def shop_products
        sample_form_def sample_parsers_def sample_product_def blank_product_def)

lemma edits_delete_product:
  "products (apply_operations sample_parsers admin_edits shop_store) = []"
  by (simp add: apply_operations_def admin_edits_def createProductMutation_def form_error_def
        write_form_def deleteProductMutation_def shop_products
        sample_form_def sample_parsers_def sample_product_def blank_product_def)

text \<open>
  Claim C3. Whatever writes of the pages follow, in any number and order, the rows of
  \<^verbatim>\<open>order_items\<close> present before are still there, at their places and with every field
  as it was: the only write to that table appends the items of a new order. In
  particular saving a product from the admin form (an update or an insert) and deleting
  a product change no table but \<^verbatim>\<open>products\<close>. (The store of the model has no triggers or
  cascades: it does what the calls of the pages say.)
\<close>

theorem C3_order_items_frozen:
  "prefix (order_items s) (order_items (apply_operations js ops s))
   \<and> (\<forall>i < length (order_items s).
         order_items (apply_operations js ops s) ! i = order_items s ! i)
   \<and> order_items (apply_operation js (SaveProduct f ep new_id err) s) = order_items s
   \<and> orders (apply_operation js (SaveProduct f ep new_id err) s) = orders s
   \<and> cart_items (apply_operation js (SaveProduct f ep new_id err) s) = cart_items s
   \<and> coupons (apply_operation js (SaveProduct f ep new_id err) s) = coupons s
   \<and> order_items (apply_operation js (DeleteProduct pid err') s) = order_items s
   \<and> orders (apply_operation js (DeleteProduct pid err') s) = orders s
   \<and> cart_items (apply_operation js (DeleteProduct pid err') s) = cart_items s
   \<and> coupons (apply_operation js (DeleteProduct pid err') s) = coupons s"
proof -
  have p: "prefix (order_items s) (order_items (apply_operations js ops s))"
    by (rule apply_operations_order_items)
  then have "\<forall>i < length (order_items s).
         order_items (apply_operations js ops s) ! i = order_items s ! i"
    by (auto simp: prefix_def nth_append)
  with p show ?thesis
    by (simp add: createProduct_frame deleteProduct_frame)
qed

text \<open>Claim C3 on the store left by the order of the two-line cart: the admin changes
  the product's offer price from 150 to 90 and then deletes the product; the first order
  item is the same row as before, its \<^verbatim>\<open>price_per_litre\<close> still 150.\<close>

theorem C3_order_items_frozen_witness:
  "map p_offer_price_per_litre (products shop_store) = [Some 150]
   \<and> map p_offer_price_per_litre
     (products (apply_operation sample_parsers
        (SaveProduct sample_form (Some (sample_product (Some 100) (Some 150))) ''p9'' None)
        shop_store)) = [Some 90]
   \<and> products (apply_operations sample_parsers admin_edits shop_store) = []
   \<and> 0 < length (order_items shop_store)
   \<and> order_items (apply_operations sample_parsers admin_edits shop_store) ! 0
       = order_items shop_store ! 0
   \<and> oi_price_per_litre (order_items (apply_operations sample_parsers admin_edits shop_store) ! 0)
       = 150"
proof -
  have len: "0 < length (order_items shop_store)"
    by (simp add: shop_order_items two_lines_def)
  have first: "oi_price_per_litre (order_items shop_store ! 0) = 150"
    by (simp add: shop_order_items two_lines_def orderItem_def price_def or_num_def
          sample_item_def sample_product_def blank_product_def cart_row.extend_def)
  have before: "map p_offer_price_per_litre (products shop_store) = [Some 150]"
    by (simp add: shop_products sample_product_def)
  from C3_order_items_frozen [of shop_store sample_parsers admin_edits] len
  have "order_items (apply_operations sample_parsers admin_edits shop_store) ! 0
       = order_items shop_store ! 0"
    by blast
  with len first before save_changes_price edits_delete_product show ?thesis by simp
qed

text \<open>
  Claim C4, as stated, fails. On a store holding a pending order of user \<^verbatim>\<open>u1\<close> and cart
  rows of \<^verbatim>\<open>u1\<close> and \<^verbatim>\<open>u2\<close>, the completion action succeeds and empties the cart of
  \<^verbatim>\<open>u1\<close>, and the payment status of the order is what it was, \<^verbatim>\<open>pending\<close>.
\<close>

theorem C4_payment_status_stays_counterexample:
  "orders shop_store = [two_line_order]
   \<and> o_payment_status two_line_order = ''pending''
   \<and> fst (completeMutation (Some ''u1'') None shop_store) = Inr ()
   \<and> cart_items (snd (completeMutation (Some ''u1'') None shop_store))
       = [sample_row ''u2'' ''p1'' 1]
   \<and> map o_payment_status (orders (snd (completeMutation (Some ''u1'') None shop_store)))
       = [''pending'']"
  by (simp add: completeMutation_def shop_orders shop_cart_items two_line_order_def
        new_order_def sample_row_def)

text \<open>
  Claim C4, amended. The completion action writes nothing but \<^verbatim>\<open>cart_items\<close>: it leaves
  \<^verbatim>\<open>orders\<close> and \<^verbatim>\<open>order_items\<close> as they were, and, for a signed-in user and a delete call
  that succeeds, it deletes exactly the cart rows of that user. No write of the pages
  changes the payment status of an order: each leaves the rows of \<^verbatim>\<open>orders\<close> as they
  were and at most appends rows whose payment status is \<^verbatim>\<open>pending\<close>.
\<close>

theorem C4_completion_leaves_orders:
  "orders (snd (completeMutation user err s)) = orders s
   \<and> order_items (snd (completeMutation user err s)) = order_items s
   \<and> (\<forall>uid. user = Some uid \<and> err = None \<longrightarrow>
         fst (completeMutation user err s) = Inr ()
         \<and> cart_items (snd (completeMutation user err s))
             = filter (\<lambda>r. cr_user_id r \<noteq> uid) (cart_items s))
   \<and> (\<exists>new. orders (apply_operation js op s) = orders s @ new
         \<and> (\<forall>r\<in>set new. o_payment_status r = ''pending''))
   \<and> (\<forall>i < length (orders s).
         o_payment_status (orders (apply_operations js ops s) ! i)
           = o_payment_status (orders s ! i))"
proof -
  have "prefix (orders s) (orders (apply_operations js ops s))"
    by (rule apply_operations_orders)
  then have "\<forall>i < length (orders s).
         o_payment_status (orders (apply_operations js ops s) ! i)
           = o_payment_status (orders s ! i)"
    by (auto simp: prefix_def nth_append)
  then show ?thesis
    using apply_operation_orders [of js op s]
    by (simp add: complete_frame) (simp add: completeMutation_def)
qed

text \<open>Claim C4, amended, on the same store: after the completion action, and after a
  further order, the first order's payment status is unchanged.\<close>

theorem C4_completion_leaves_orders_witness:
  "fst (completeMutation (Some ''u1'') None shop_store) = Inr ()
   \<and> cart_items (snd (completeMutation (Some ''u1'') None shop_store))
       = [sample_row ''u2'' ''p1'' 1]
   \<and> orders (snd (completeMutation (Some ''u1'') None shop_store)) = orders shop_store
   \<and> 0 < length (orders shop_store)
   \<and> o_payment_status
        (orders (apply_operations sample_parsers
                   [Complete (Some ''u1'') None,
                    PlaceOrder (sample_env None) (sample_checkout two_lines None)]
                   shop_store) ! 0)
       = o_payment_status (orders shop_store ! 0)"
proof -
  have len: "0 < length (orders shop_store)"
    by (simp add: shop_orders)
  have ids: "cr_user_id (sample_row u p q) = u" for u p q
    by (simp add: sample_row_def)
  from C4_completion_leaves_orders [of "Some ''u1''" None shop_store sample_parsers
      "Complete (Some ''u1'') None"
      "[Complete (Some ''u1'') None,
        PlaceOrder (sample_env None) (sample_checkout two_lines None)]"] len
  show ?thesis by (simp add: shop_cart_items ids)
qed

subsection \<open>The confirmation page\<close>

lemma handed_off_mounted: "handed_off (mounted t)"
  by (simp add: handed_off_def mounted_def)

lemma handed_off_step: "handed_off c \<Longrightarrow> handed_off (step c ev)"
  by (cases ev)
     (auto simp: handed_off_def split: option.splits)

lemma run_snoc: "run c (evs @ [ev]) = step (run c evs) ev"
  by (simp add: run_def)

lemma handed_off_run: "handed_off (run (mounted t) evs)"
proof (induction evs rule: rev_induct)
  case Nil
  show ?case by (simp add: run_def handed_off_mounted)
next
  case (snoc ev evs)
  then show ?case by (simp add: run_snoc handed_off_step)
qed

text \<open>
  Claim C8. In every state the PaymentConfirmation page reaches from its mount, by any
  sequence of typing, clicks, timer callbacks and passing time: each invocation of the
  completion action (the mutation that clears the cart) happened when exactly one
  hand-off had been made, with a reference that was not empty, and at least 3000 ms
  after that hand-off; and whenever the completion button is enabled, such a hand-off
  lies at least 3000 ms back.
\<close>

theorem C8_completion_after_cooldown:
  "(\<forall>x\<in>set (pc_completed (run (mounted t0) evs)).
      \<exists>t u. pc_opened (run (mounted t0) evs) = [(t, u)] \<and> u \<noteq> [] \<and> t + 3000 \<le> x)
   \<and> (pc_canComplete (run (mounted t0) evs) \<longrightarrow>
        (\<exists>t u. pc_opened (run (mounted t0) evs) = [(t, u)] \<and> u \<noteq> []
                \<and> t + 3000 \<le> pc_clock (run (mounted t0) evs)))"
proof -
  let ?c = "run (mounted t0) evs"
  have h: "handed_off ?c" by (rule handed_off_run)
  have one: "\<exists>t u. pc_opened ?c = [(t, u)]" if "pc_sending ?c"
  proof -
    from h that have "pc_opened ?c \<noteq> []" "length (pc_opened ?c) \<le> 1"
      by (simp_all add: handed_off_def)
    then show ?thesis by (cases "pc_opened ?c") auto
  qed
  have s1: "pc_sending ?c" if "x \<in> set (pc_completed ?c)" for x
    using h that by (auto simp: handed_off_def)
  have s2: "pc_sending ?c" if "pc_canComplete ?c"
    using h that by (auto simp: handed_off_def)
  show ?thesis
  proof (intro conjI ballI impI)
    fix x assume x: "x \<in> set (pc_completed ?c)"
    from one [OF s1 [OF x]] obtain t u where o: "pc_opened ?c = [(t, u)]" by blast
    with h x have "u \<noteq> [] \<and> t + 3000 \<le> x" by (auto simp: handed_off_def)
    with o show "\<exists>t u. pc_opened ?c = [(t, u)] \<and> u \<noteq> [] \<and> t + 3000 \<le> x" by blast
  next
    assume cc: "pc_canComplete ?c"
    from one [OF s2 [OF cc]] obtain t u where o: "pc_opened ?c = [(t, u)]" by blast
    with h cc have "u \<noteq> [] \<and> t + 3000 \<le> pc_clock ?c" by (auto simp: handed_off_def)
    with o show "\<exists>t u. pc_opened ?c = [(t, u)] \<and> u \<noteq> [] \<and> t + 3000 \<le> pc_clock ?c"
      by blast
  qed
qed

text \<open>Claim C8 on the session \<open>paying\<close>: the hand-off is at time 0 with reference
  \<^verbatim>\<open>UTR123\<close>, the two early clicks do nothing, and the one completion is at time
  3000.\<close>

theorem C8_completion_after_cooldown_witness:
  "pc_completed (run (mounted 0) paying) = [3000]
   \<and> 3000 \<in> set (pc_completed (run (mounted 0) paying))
   \<and> (\<exists>t u. pc_opened (run (mounted 0) paying) = [(t, u)] \<and> u \<noteq> [] \<and> t + 3000 \<le> 3000)
   \<and> pc_opened (run (mounted 0) paying) = [(0, ''UTR123'')]
   \<and> pc_canComplete (run (mounted 0) paying)"
proof -
  have r: "run (mounted 0) paying =
     \<lparr>pc_utr = [], pc_sending = True, pc_canComplete = True, pc_isPending = True,
      pc_timer = None, pc_clock = 3000, pc_opened = [(0, ''UTR123'')], pc_completed = [3000]\<rparr>"
    by (simp add: run_def paying_def mounted_def)
  have m: "3000 \<in> set (pc_completed (run (mounted 0) paying))"
    by (simp add: r)
  from C8_completion_after_cooldown [of 0 paying] m
  have "\<exists>t u. pc_opened (run (mounted 0) paying) = [(t, u)] \<and> u \<noteq> [] \<and> t + 3000 \<le> 3000"
    by blast
  with m show ?thesis by (simp add: r)
qed

end
